theory Spec2Isabelle
  imports Main
begin

section \<open>JavaScript values and errors\<close>

text \<open>
  The widgets of \<^verbatim>\<open>new-course/directives.js\<close> handle untyped JavaScript values. The
  values that the code distinguishes are modelled by one datatype; \<open>'f\<close> is the type of
  platform \<^verbatim>\<open>File\<close> objects, \<open>JObject\<close> is any other object, and the numbers are the
  integers. Exceptions are values of the type \<open>error\<close>. A function
  that can throw after it has changed the state returns the error together with the state
  it leaves behind.
\<close>

datatype error = TypeError | InvalidStateError

datatype 'f jsval =
    JUndefined
  | JNull
  | JBool bool
  | JNum int
  | JStr string
  | JFile 'f
  | JObject

text \<open>JavaScript truthiness: \<^verbatim>\<open>undefined\<close>, \<^verbatim>\<open>null\<close>, \<^verbatim>\<open>false\<close>, \<^verbatim>\<open>0\<close> and
  \<^verbatim>\<open>""\<close> are falsy, every object is truthy.\<close>

fun truthy :: "'f jsval \<Rightarrow> bool" where
  "truthy JUndefined = False"
| "truthy JNull = False"
| "truthy (JBool b) = b"
| "truthy (JNum n) = (n \<noteq> 0)"
| "truthy (JStr s) = (s \<noteq> [])"
| "truthy (JFile f) = True"
| "truthy JObject = True"

text \<open>\<^verbatim>\<open>d.constructor === window.File\<close>: of the values above only a \<^verbatim>\<open>File\<close> object
  has the platform's \<^verbatim>\<open>File\<close> as its constructor.\<close>

fun constructor_is_File :: "'f jsval \<Rightarrow> bool" where
  "constructor_is_File (JFile f) = True"
| "constructor_is_File v = False"

section \<open>The \<^verbatim>\<open>professorslist\<close> directive\<close>

text \<open>
  The value bound to \<^verbatim>\<open>onSelect\<close> is any JavaScript value. The controller looks at three
  things: whether the value is truthy, whether its \<^verbatim>\<open>call\<close> property is truthy, and, when
  it applies the value to an argument, whether it is a function. \<open>Falsy\<close> stands for
  an absent binding (\<^verbatim>\<open>undefined\<close>, \<^verbatim>\<open>null\<close>) and every other falsy value; a truthy value
  carries the function it is, if it is one, and whether its \<^verbatim>\<open>call\<close> property is truthy
  (a function inherits \<^verbatim>\<open>Function.prototype.call\<close>; an object may have a property of
  that name without being a function).
\<close>

datatype 'c binding = Falsy | Truthy (invocable: "'c option") (has_call: bool)

text \<open>
  The isolated scope of the directive. \<open>selectedProfessor\<close> is \<open>None\<close> for
  \<^verbatim>\<open>null\<close> and \<open>Some r\<close> for a professor record \<open>r\<close> (an object, hence truthy).
  What a callback does is outside this file, so an application of \<^verbatim>\<open>onSelect\<close> is
  recorded in \<open>invocations\<close>: the function applied and its argument list.
\<close>

record ('p, 'c) scope =
  professors :: "'p list"
  selectedProfessor :: "'p option"
  onSelect :: "'c binding"
  active :: bool
  invocations :: "('c \<times> 'p list) list"

text \<open>The controller body: \<^verbatim>\<open>$scope.professors = Professor.query();
  $scope.selectedProfessor = null;\<close> where \<open>query\<close> is what the collaborator returns.\<close>

definition controller :: "'p list \<Rightarrow> ('p, 'c) scope \<Rightarrow> ('p, 'c) scope" where
  "controller query s = s\<lparr>professors := query, selectedProfessor := None\<rparr>"

text \<open>
  \<^verbatim>\<open>$scope.selectProfessor\<close>. Applying a value that is not a function throws a
  \<^verbatim>\<open>TypeError\<close>.
\<close>

definition selectProfessor :: "('p, 'c) scope \<Rightarrow> error option \<times> ('p, 'c) scope" where
  "selectProfessor s =
     (case selectedProfessor s of
        None \<Rightarrow> (None, s)
      | Some r \<Rightarrow>
          (case onSelect s of
             Falsy \<Rightarrow> (None, s)
           | Truthy fn c \<Rightarrow>
               if c then
                 (case fn of
                    Some f \<Rightarrow> (None, s\<lparr>invocations := invocations s @ [(f, [r])]\<rparr>)
                  | None \<Rightarrow> (Some TypeError, s))
               else (None, s)))"

text \<open>Modelled from the spec: the template \<^verbatim>\<open>directive.professorslist.html\<close> is not among
  the sources; by the specification it binds the selection control to
  \<open>selectedProfessor\<close>, so that the user's choice of a record is an assignment to it.\<close>

definition userSelects :: "'p \<Rightarrow> ('p, 'c) scope \<Rightarrow> ('p, 'c) scope" where
  "userSelects r s = s\<lparr>selectedProfessor := Some r\<rparr>"

section \<open>Strings: the pattern \<^verbatim>\<open>/\bng[^ ]+ */g\<close> and \<^verbatim>\<open>trim\<close>\<close>

text \<open>
  A JavaScript string is a sequence of code units; a \<open>char\<close> stands for a code unit
  below 256. The word characters of a regular expression are \<^verbatim>\<open>[A-Za-z0-9_]\<close>.
  The white space that \<^verbatim>\<open>trim\<close> removes is, among these code units, tab, line feed,
  vertical tab, form feed, carriage return, space and the no-break space.
\<close>

definition is_word_char :: "char \<Rightarrow> bool" where
  "is_word_char c =
     (let n = (of_char c :: nat) in
        (48 \<le> n \<and> n \<le> 57) \<or> (65 \<le> n \<and> n \<le> 90) \<or> n = 95 \<or> (97 \<le> n \<and> n \<le> 122))"

definition is_white_space :: "char \<Rightarrow> bool" where
  "is_white_space c =
     (let n = (of_char c :: nat) in (9 \<le> n \<and> n \<le> 13) \<or> n = 32 \<or> n = 160)"

text \<open>\<^verbatim>\<open>\b\<close> between two neighbouring positions (\<open>None\<close> is an end of the string):
  exactly one of the two is a word character.\<close>

fun is_word :: "char option \<Rightarrow> bool" where
  "is_word None = False"
| "is_word (Some c) = is_word_char c"

definition word_boundary :: "char option \<Rightarrow> char option \<Rightarrow> bool" where
  "word_boundary prev next = (is_word prev \<noteq> is_word next)"

text \<open>
  One attempt to match \<^verbatim>\<open>\bng[^ ]+ *\<close> at the head of \<open>s\<close>, where \<open>prev\<close> is the code
  unit before it. Both repetitions are greedy and nothing follows them, so the match, if
  there is one, is \<^verbatim>\<open>ng\<close>, the longest run of code units other than the space (at least
  one), and all the spaces after it. The result is the matched text.
\<close>

definition ng_match :: "char option \<Rightarrow> string \<Rightarrow> string option" where
  "ng_match prev s =
     (case s of
        n # g # rest \<Rightarrow>
          (let run = takeWhile (\<lambda>c. c \<noteq> CHR '' '') rest;
               spaces = takeWhile (\<lambda>c. c = CHR '' '') (dropWhile (\<lambda>c. c \<noteq> CHR '' '') rest)
           in if word_boundary prev (Some n) \<and> n = CHR ''n'' \<and> g = CHR ''g'' \<and> run \<noteq> []
              then Some (n # g # run @ spaces) else None)
      | _ \<Rightarrow> None)"

text \<open>\<^verbatim>\<open>s.replace(/\bng[^ ]+ */g, '')\<close>: scanning from the left, every match is deleted
  and the scan goes on behind it; where there is no match the code unit is kept.\<close>

function replace_ng :: "char option \<Rightarrow> string \<Rightarrow> string" where
  "replace_ng prev [] = []"
| "replace_ng prev (c # cs) =
     (case ng_match prev (c # cs) of
        Some m \<Rightarrow> replace_ng (Some (last m)) (drop (length m) (c # cs))
      | None \<Rightarrow> c # replace_ng (Some c) cs)"
  by pat_completeness auto
termination
  by (relation "measure (\<lambda>(prev, s). length s)")
     (auto simp: ng_match_def Let_def split: list.splits if_splits)

definition trim :: "string \<Rightarrow> string" where
  "trim s = rev (dropWhile is_white_space (rev (dropWhile is_white_space s)))"

text \<open>
  Class lists. A class attribute written in the usual way is a list of class names
  separated by single spaces; a class name is not empty and contains no white space.
  \<open>is_ng_class t\<close> says that the pattern matches at the start of the class name
  \<open>t\<close> (\<^verbatim>\<open>ng\<close> and at least one more code unit), \<open>ng_free prev t\<close> that it
  matches at no position of \<open>t\<close>, where \<open>prev\<close> is the code unit before \<open>t\<close>.
\<close>

fun join_classes :: "string list \<Rightarrow> string" where
  "join_classes [] = []"
| "join_classes [t] = t"
| "join_classes (t # ts) = t @ CHR '' '' # join_classes ts"

definition class_name :: "string \<Rightarrow> bool" where
  "class_name t = (t \<noteq> [] \<and> (\<forall>c \<in> set t. \<not> is_white_space c))"

definition is_ng_class :: "string \<Rightarrow> bool" where
  "is_ng_class t = (take 2 t = ''ng'' \<and> 2 < length t)"

fun ng_free :: "char option \<Rightarrow> string \<Rightarrow> bool" where
  "ng_free prev [] = True"
| "ng_free prev (c # cs) = (\<not> (\<not> is_word prev \<and> is_ng_class (c # cs)) \<and> ng_free (Some c) cs)"

section \<open>The \<^verbatim>\<open>file\<close> directive\<close>

text \<open>
  A property of the native input element holds a string, \<^verbatim>\<open>undefined\<close> or the change
  handler that \<open>link\<close> installs. The input element is the map of the properties the
  directive assigns; \<^verbatim>\<open>input.type\<close>, \<^verbatim>\<open>input.onchange\<close>, \<^verbatim>\<open>input.className\<close> and
  \<^verbatim>\<open>input[att]\<close> are entries of the same map, as they are properties of the same object.
  The custom element has its attributes and the children appended to it.
\<close>

datatype pval = PUndefined | PStr string | PHandler

type_synonym input_element = "string \<rightharpoonup> pval"

record element =
  attributes :: "string \<rightharpoonup> string"
  children :: "input_element list"

text \<open>\<^verbatim>\<open>element.attr(name)\<close> reads an attribute, \<^verbatim>\<open>undefined\<close> when the element has
  none of that name; \<^verbatim>\<open>element.attr(name, value)\<close> sets one; \<^verbatim>\<open>element.append(input)\<close>
  adds a child.\<close>

definition attr :: "element \<Rightarrow> string \<Rightarrow> pval" where
  "attr el name = (case attributes el name of None \<Rightarrow> PUndefined | Some v \<Rightarrow> PStr v)"

definition attr_set :: "element \<Rightarrow> string \<Rightarrow> string \<Rightarrow> element" where
  "attr_set el name v = el\<lparr>attributes := (attributes el)(name \<mapsto> v)\<rparr>"

definition element_append :: "element \<Rightarrow> input_element \<Rightarrow> element" where
  "element_append el inp = el\<lparr>children := children el @ [inp]\<rparr>"

text \<open>\<^verbatim>\<open>/^ng/.test(att)\<close>\<close>

definition starts_ng :: "string \<Rightarrow> bool" where
  "starts_ng att = (take 2 att = ''ng'')"

text \<open>The loop \<^verbatim>\<open>for (var att in attrs)\<close> over the enumerable property names of
  \<^verbatim>\<open>attrs\<close>, in the order of the enumeration.\<close>

fun copy_attrs :: "string list \<Rightarrow> element \<Rightarrow> input_element \<Rightarrow> input_element" where
  "copy_attrs [] el inp = inp"
| "copy_attrs (att # atts) el inp =
     copy_attrs atts el (if \<not> starts_ng att then inp(att \<mapsto> attr el att) else inp)"

text \<open>
  The \<open>link\<close> function of the directive. \<open>attrs\<close> is the framework's attributes object, a
  list of its enumerable properties; only their names are used. Calling \<^verbatim>\<open>replace\<close> on
  \<^verbatim>\<open>undefined\<close> throws a \<^verbatim>\<open>TypeError\<close>; at that point the custom element has not yet
  been changed.
\<close>

definition file_link :: "(string \<times> 'v) list \<Rightarrow> element \<Rightarrow> error + element" where
  "file_link attrs el =
     (let inp = Map.empty(''type'' \<mapsto> PStr ''file'');
          inp = inp(''onchange'' \<mapsto> PHandler);
          inp = copy_attrs (map fst attrs) el inp
      in case attr el ''class'' of
           PStr c \<Rightarrow>
             (let inp = inp(''className'' \<mapsto> PStr (trim (replace_ng None c)));
                  el = attr_set el ''class'' []
              in Inr (element_append el inp))
         | PUndefined \<Rightarrow> Inl TypeError
         | PHandler \<Rightarrow> Inl TypeError)"

text \<open>
  The model controller of the framework, as far as the directive uses it:
  \<^verbatim>\<open>$setViewValue(v)\<close> makes \<open>v\<close> the value of the bound expression (the directive
  registers no parser). \<open>updates\<close> records the values passed to it.
\<close>

record 'f ngModelController =
  modelValue :: "'f jsval"
  updates :: "'f jsval list"

definition setViewValue :: "'f jsval \<Rightarrow> 'f ngModelController \<Rightarrow> 'f ngModelController" where
  "setViewValue v c = c\<lparr>modelValue := v, updates := updates c @ [v]\<rparr>"

text \<open>What the change handler can reach: the \<open>ngModel\<close> argument of \<open>link\<close>
  (\<open>None\<close> is \<^verbatim>\<open>null\<close>, passed when the element has no \<^verbatim>\<open>ng-model\<close>, as
  \<^verbatim>\<open>'?ngModel'\<close> allows) and the scope, of which only the number of \<^verbatim>\<open>$apply()\<close> calls
  is kept.\<close>

record 'f host =
  ngModel :: "'f ngModelController option"
  applies :: nat

text \<open>\<^verbatim>\<open>files[0]\<close>: reading past the end of a list gives \<^verbatim>\<open>undefined\<close>.\<close>

definition item :: "'f list \<Rightarrow> nat \<Rightarrow> 'f jsval" where
  "item fs i = (if i < length fs then JFile (fs ! i) else JUndefined)"

text \<open>
  \<^verbatim>\<open>input.onchange\<close>. The argument is \<^verbatim>\<open>evt.target.files\<close>: \<open>None\<close> when the
  property is missing, \<open>Some fs\<close> for a file list, which is an object and therefore truthy
  also when it is empty. Calling a method of \<^verbatim>\<open>null\<close> throws a \<^verbatim>\<open>TypeError\<close>, and
  \<^verbatim>\<open>scope.$apply()\<close> is then not reached.
\<close>

definition onchange :: "'f list option \<Rightarrow> 'f host \<Rightarrow> error option \<times> 'f host" where
  "onchange files h =
     (case files of
        None \<Rightarrow> (None, h\<lparr>applies := applies h + 1\<rparr>)
      | Some fs \<Rightarrow>
          (case ngModel h of
             None \<Rightarrow> (Some TypeError, h)
           | Some c \<Rightarrow>
               (None, h\<lparr>ngModel := Some (setViewValue (item fs 0) c),
                        applies := applies h + 1\<rparr>)))"

section \<open>The \<^verbatim>\<open>localImage\<close> directive\<close>

text \<open>The image element: \<^verbatim>\<open>img.src\<close> and \<^verbatim>\<open>img.style.display\<close>.\<close>

record img =
  src :: string
  display :: string

text \<open>
  The platform's \<^verbatim>\<open>FileReader\<close>, as the File API defines it: a reader is empty,
  loading or done; \<^verbatim>\<open>readAsDataURL\<close> on a reader that is loading throws an
  \<^verbatim>\<open>InvalidStateError\<close>, otherwise the reader starts to load the file.
\<close>

datatype readyState = EMPTY | LOADING | DONE

record 'f fileReader =
  readyState :: readyState
  blob :: "'f option"
  result :: "string option"

definition new_FileReader :: "'f fileReader" where
  "new_FileReader = \<lparr>readyState = EMPTY, blob = None, result = None\<rparr>"

definition readAsDataURL :: "'f \<Rightarrow> 'f fileReader \<Rightarrow> error + 'f fileReader" where
  "readAsDataURL f r =
     (if readyState r = LOADING then Inl InvalidStateError
      else Inr (r\<lparr>readyState := LOADING, blob := Some f, result := None\<rparr>))"

text \<open>
  One instance of the directive: the image, the reader created by \<open>link\<close>, the
  expression registered with \<^verbatim>\<open>scope.$watch\<close> (if any), and the errors thrown by the
  watch listener, which the framework's digest hands to its exception handler.
\<close>

record 'f localImage =
  image :: img
  reader :: "'f fileReader"
  watching :: "string option"
  handled :: "error list"

text \<open>\<^verbatim>\<open>reader.onload\<close>: \<^verbatim>\<open>img.src = evt.target.result\<close>.\<close>

definition reader_onload :: "string \<Rightarrow> img \<Rightarrow> img" where
  "reader_onload res im = im\<lparr>src := res\<rparr>"

text \<open>
  The listener passed to \<^verbatim>\<open>scope.$watch\<close>; \<open>window_File\<close> says whether the platform
  defines \<^verbatim>\<open>window.File\<close>. The image is shown before the read is started, so it stays
  shown when \<^verbatim>\<open>readAsDataURL\<close> throws. (The last case, an argument that is not a
  file, is a \<^verbatim>\<open>TypeError\<close> of \<^verbatim>\<open>readAsDataURL\<close>; no value of \<open>jsval\<close> reaches it.)
\<close>

definition listener :: "bool \<Rightarrow> 'f jsval \<Rightarrow> 'f localImage \<Rightarrow> error option \<times> 'f localImage" where
  "listener window_File d w =
     (if window_File \<and> truthy d \<and> constructor_is_File d then
        (let w = w\<lparr>image := (image w)\<lparr>display := []\<rparr>\<rparr> in
           case d of
             JFile f \<Rightarrow>
               (case readAsDataURL f (reader w) of
                  Inl e \<Rightarrow> (Some e, w)
                | Inr r \<Rightarrow> (None, w\<lparr>reader := r\<rparr>))
           | _ \<Rightarrow> (Some TypeError, w))
      else (None, w\<lparr>image := (image w)\<lparr>display := ''none''\<rparr>\<rparr>))"

text \<open>The \<open>link\<close> function: \<^verbatim>\<open>attrs.ngModel\<close> is \<^verbatim>\<open>undefined\<close> or a string, and the
  empty string is falsy.\<close>

definition localImage_link :: "(string \<times> string) list \<Rightarrow> img \<Rightarrow> 'f localImage" where
  "localImage_link attrs im =
     \<lparr>image = im, reader = new_FileReader,
      watching = (case map_of attrs ''ngModel'' of
                    None \<Rightarrow> None
                  | Some e \<Rightarrow> if e \<noteq> [] then Some e else None),
      handled = []\<rparr>"

text \<open>
  What can happen to an instance after \<open>link\<close>: an expression of the host scope takes a
  value and the digest calls the listeners watching that expression; the read in progress
  completes, with the data URL \<open>enc f\<close> of the file as its result, and \<open>onload\<close>
  fires; or the read in progress fails, and no handler is installed for that.
\<close>

datatype 'f event = Changed string "'f jsval" | ReadDone | ReadFailed

fun step :: "bool \<Rightarrow> ('f \<Rightarrow> string) \<Rightarrow> 'f event \<Rightarrow> 'f localImage \<Rightarrow> 'f localImage" where
  "step window_File enc (Changed e d) w =
     (if watching w = Some e then
        (case listener window_File d w of
           (None, w') \<Rightarrow> w'
         | (Some err, w') \<Rightarrow> w'\<lparr>handled := handled w' @ [err]\<rparr>)
      else w)"
| "step window_File enc ReadDone w =
     (case blob (reader w) of
        Some f \<Rightarrow>
          if readyState (reader w) = LOADING then
            w\<lparr>reader := (reader w)\<lparr>readyState := DONE, result := Some (enc f)\<rparr>,
              image := reader_onload (enc f) (image w)\<rparr>
          else w
      | None \<Rightarrow> w)"
| "step window_File enc ReadFailed w =
     (if readyState (reader w) = LOADING then
        w\<lparr>reader := (reader w)\<lparr>readyState := DONE, result := None\<rparr>\<rparr>
      else w)"

fun run :: "bool \<Rightarrow> ('f \<Rightarrow> string) \<Rightarrow> 'f event list \<Rightarrow> 'f localImage \<Rightarrow> 'f localImage" where
  "run window_File enc [] w = w"
| "run window_File enc (ev # evs) w = run window_File enc evs (step window_File enc ev w)"

section \<open>Properties of the professor picker\<close>

text \<open>
  Claim C5. Confirming while no professor is selected never applies the on-select callback
  (the scope, with its record of invocations, is returned as it was). After the user has
  selected the record \<open>r\<close>, with a function \<open>f\<close> bound to \<open>onSelect\<close>, one
  confirmation applies \<open>f\<close> exactly once, to the single argument \<open>r\<close>, raises nothing and
  leaves the selection and the list of professors as they were.
\<close>

theorem C5_selectProfessor:
  "(selectedProfessor s = None \<longrightarrow> selectProfessor s = (None, s)) \<and>
   (onSelect s = Truthy (Some f) True \<longrightarrow>
      (let s1 = userSelects r s; (e, s2) = selectProfessor s1 in
         e = None \<and>
         invocations s2 = invocations s @ [(f, [r])] \<and>
         selectedProfessor s2 = Some r \<and>
         selectedProfessor s2 = selectedProfessor s1 \<and>
         professors s2 = professors s1 \<and>
         professors s2 = professors s))"
  by (simp add: selectProfessor_def userSelects_def)

theorem C5_selectProfessor_witness:
  "selectProfessor (controller [''A'', ''B''] \<lparr>professors = [], selectedProfessor = Some ''Z'',
      onSelect = Truthy (Some (7::nat)) True, active = True, invocations = []\<rparr>)
     = (None, \<lparr>professors = [''A'', ''B''], selectedProfessor = None,
      onSelect = Truthy (Some 7) True, active = True, invocations = []\<rparr>) \<and>
   fst (selectProfessor (userSelects ''B'' (controller [''A'', ''B''] \<lparr>professors = [],
      selectedProfessor = Some ''Z'',
      onSelect = Truthy (Some (7::nat)) True, active = True, invocations = []\<rparr>))) = None \<and>
   invocations (snd (selectProfessor (userSelects ''B'' (controller [''A'', ''B'']
      \<lparr>professors = [], selectedProfessor = Some ''Z'',
      onSelect = Truthy (Some (7::nat)) True, active = True, invocations = []\<rparr>))))
     = [(7, [''B''])] \<and>
   selectedProfessor (snd (selectProfessor (userSelects ''B'' (controller [''A'', ''B'']
      \<lparr>professors = [], selectedProfessor = Some ''Z'',
      onSelect = Truthy (Some (7::nat)) True, active = True, invocations = []\<rparr>))))
     = Some ''B'' \<and>
   professors (snd (selectProfessor (userSelects ''B'' (controller [''A'', ''B'']
      \<lparr>professors = [], selectedProfessor = Some ''Z'',
      onSelect = Truthy (Some (7::nat)) True, active = True, invocations = []\<rparr>))))
     = [''A'', ''B'']"
  using C5_selectProfessor [of "controller [''A'', ''B''] \<lparr>professors = [],
      selectedProfessor = Some ''Z'',
      onSelect = Truthy (Some (7::nat)) True, active = True, invocations = []\<rparr>" 7 "''B''"]
  by (simp add: controller_def userSelects_def Let_def split_beta)

text \<open>
  Claim C7, amended. With a selection present, the confirmation is silently skipped (no
  application is recorded, nothing is raised, the scope is unchanged) when the value bound
  to \<open>onSelect\<close> is falsy or has no truthy \<^verbatim>\<open>call\<close> property. The guard tests that
  property and not whether the value is a function.
\<close>

theorem C7_guard_skips:
  "selectedProfessor s = Some r \<Longrightarrow>
   onSelect s = Falsy \<or> onSelect s = Truthy fn False \<Longrightarrow>
   selectProfessor s = (None, s)"
  by (auto simp: selectProfessor_def)

theorem C7_guard_skips_witness:
  "selectProfessor \<lparr>professors = [''A'', ''B''], selectedProfessor = Some ''B'',
      onSelect = (Falsy :: nat binding), active = True, invocations = []\<rparr>
     = (None, \<lparr>professors = [''A'', ''B''], selectedProfessor = Some ''B'',
      onSelect = Falsy, active = True, invocations = []\<rparr>)"
  using C7_guard_skips [of "\<lparr>professors = [''A'', ''B''], selectedProfessor = Some ''B'',
      onSelect = (Falsy :: nat binding), active = True, invocations = []\<rparr>" "''B''" None]
  by simp

text \<open>
  The claim as stated fails for a value that is not a function and has a truthy
  \<^verbatim>\<open>call\<close> property, such as the object \<^verbatim>\<open>{call: true}\<close>: the guard lets it through
  and applying it raises a \<^verbatim>\<open>TypeError\<close>.
\<close>

theorem C7_not_invocable_counterexample:
  "invocable (Truthy (None :: nat option) True) = None \<and>
   selectProfessor \<lparr>professors = [''A'', ''B''], selectedProfessor = Some ''B'',
      onSelect = Truthy (None :: nat option) True, active = True, invocations = []\<rparr>
     = (Some TypeError, \<lparr>professors = [''A'', ''B''], selectedProfessor = Some ''B'',
      onSelect = Truthy None True, active = True, invocations = []\<rparr>)"
  by (simp add: selectProfessor_def)

section \<open>Properties of the file input\<close>

lemma item_Cons: "item (f # fs) 0 = JFile f"
  by (simp add: item_def)

lemma item_Nil: "item [] 0 = JUndefined"
  by (simp add: item_def)

text \<open>
  Claim C1, amended. With a model controller bound: when the event carries at least one
  file, the bound value becomes exactly the first file of the selection (one update, one
  \<^verbatim>\<open>$apply()\<close>); when the event carries an empty file list, the bound value is set to
  \<^verbatim>\<open>undefined\<close> (an empty list is truthy and its first entry is \<^verbatim>\<open>undefined\<close>); only
  when the event target has no file list at all is no update emitted and the bound value
  left as it was.
\<close>

theorem C1_onchange:
  "ngModel h = Some c \<Longrightarrow>
   onchange (Some (f # fs)) h =
     (None, h\<lparr>ngModel := Some (c\<lparr>modelValue := JFile f, updates := updates c @ [JFile f]\<rparr>),
              applies := applies h + 1\<rparr>) \<and>
   onchange (Some []) h =
     (None, h\<lparr>ngModel := Some (c\<lparr>modelValue := JUndefined,
                                   updates := updates c @ [JUndefined]\<rparr>),
              applies := applies h + 1\<rparr>) \<and>
   onchange None h = (None, h\<lparr>applies := applies h + 1\<rparr>)"
  by (simp add: onchange_def setViewValue_def item_Cons item_Nil)

theorem C1_onchange_witness:
  "onchange (Some [''b.png'', ''c.png''])
     \<lparr>ngModel = Some \<lparr>modelValue = JFile ''a.png'', updates = []\<rparr>, applies = 0\<rparr> =
     (None, \<lparr>ngModel = Some \<lparr>modelValue = JFile ''b.png'', updates = [JFile ''b.png'']\<rparr>,
             applies = 1\<rparr>) \<and>
   onchange None
     \<lparr>ngModel = Some \<lparr>modelValue = JFile ''a.png'', updates = []\<rparr>, applies = 0\<rparr> =
     (None, \<lparr>ngModel = Some \<lparr>modelValue = JFile ''a.png'', updates = []\<rparr>, applies = 1\<rparr>)"
  using C1_onchange [of "\<lparr>ngModel = Some \<lparr>modelValue = JFile ''a.png'', updates = []\<rparr>,
      applies = 0\<rparr>" "\<lparr>modelValue = JFile ''a.png'', updates = []\<rparr>" "''b.png''" "[''c.png'']"]
  by simp

text \<open>
  The claim as stated fails when the selection is cancelled: the event carries an empty
  file list, an update is emitted and the bound value changes from the file to
  \<^verbatim>\<open>undefined\<close>.
\<close>

theorem C1_cancel_counterexample:
  "onchange (Some [])
     \<lparr>ngModel = Some \<lparr>modelValue = JFile ''a.png'', updates = []\<rparr>, applies = 0\<rparr> =
     (None, \<lparr>ngModel = Some \<lparr>modelValue = JUndefined, updates = [JUndefined]\<rparr>,
             applies = 1\<rparr>) \<and>
   (JUndefined :: string jsval) \<noteq> JFile ''a.png''"
  by (simp add: onchange_def setViewValue_def item_def)

text \<open>
  Claim C10. The directive requires \<^verbatim>\<open>'?ngModel'\<close>, so \<open>link\<close> may receive no
  controller; the change handler calls \<^verbatim>\<open>ngModel.$setViewValue\<close> all the same. Without
  an \<^verbatim>\<open>ng-model\<close> binding, a change event that carries a file list (with a selected
  file, or empty) throws a \<^verbatim>\<open>TypeError\<close>, and \<^verbatim>\<open>scope.$apply()\<close> is not reached;
  only an event whose target has no file list passes without an error.
\<close>

theorem C10_onchange_without_ngModel:
  "ngModel h = None \<Longrightarrow>
   onchange (Some (f # fs)) h = (Some TypeError, h) \<and>
   onchange (Some []) h = (Some TypeError, h) \<and>
   onchange None h = (None, h\<lparr>applies := applies h + 1\<rparr>)"
  by (simp add: onchange_def)

theorem C10_onchange_without_ngModel_witness:
  "onchange (Some [''b.png'']) \<lparr>ngModel = None, applies = 0\<rparr> =
     (Some TypeError, \<lparr>ngModel = None, applies = 0\<rparr>)"
  using C10_onchange_without_ngModel [of "\<lparr>ngModel = None, applies = 0\<rparr>" "''b.png''" "[]"]
  by simp



lemma file_link_Some:
  "attributes el ''class'' = Some c \<Longrightarrow>
   file_link attrs el =
     Inr (el\<lparr>attributes := (attributes el)(''class'' \<mapsto> []),
            children := children el @
              [(copy_attrs (map fst attrs) el [''type'' \<mapsto> PStr ''file'', ''onchange'' \<mapsto> PHandler])
                 (''className'' \<mapsto> PStr (trim (replace_ng None c)))]\<rparr>)"
  by (simp add: file_link_def attr_def attr_set_def element_append_def)

lemma file_link_None:
  "attributes el ''class'' = None \<Longrightarrow> file_link attrs el = Inl TypeError"
  by (simp add: file_link_def attr_def)






section \<open>Properties of the image preview\<close>


lemma listener_not_File:
  "\<not> (window_File \<and> truthy d \<and> constructor_is_File d) \<Longrightarrow>
   listener window_File d w = (None, w\<lparr>image := (image w)\<lparr>display := ''none''\<rparr>\<rparr>)"
  by (auto simp: listener_def)




text \<open>
  Claim C4. When the listener observes a value that is absent or not a \<^verbatim>\<open>File\<close> (the
  platform has no \<^verbatim>\<open>File\<close>, or the value is falsy, as \<^verbatim>\<open>null\<close> and \<^verbatim>\<open>undefined\<close>
  are, or its constructor is not \<^verbatim>\<open>File\<close>), the image is hidden at once, nothing is
  raised, and the reader is left as it was: no read is started.
\<close>

theorem C4_listener_not_File:
  "\<not> (window_File \<and> truthy d \<and> constructor_is_File d) \<Longrightarrow>
   (let (e, w') = listener window_File d w in
      e = None \<and> display (image w') = ''none'' \<and> src (image w') = src (image w) \<and>
      reader w' = reader w \<and> watching w' = watching w \<and> handled w' = handled w)"
  by (simp add: listener_not_File)

theorem C4_listener_not_File_witness:
  "(let (e, w') = listener True (JNull :: string jsval)
        \<lparr>image = \<lparr>src = ''old'', display = []\<rparr>, reader = new_FileReader,
          watching = Some ''course.thumb'', handled = []\<rparr>
    in e = None \<and> display (image w') = ''none'' \<and> src (image w') = ''old'' \<and>
       reader w' = new_FileReader) \<and>
   (let (e, w') = listener True (JStr ''a.png'' :: string jsval)
        \<lparr>image = \<lparr>src = ''old'', display = []\<rparr>, reader = new_FileReader,
          watching = Some ''course.thumb'', handled = []\<rparr>
    in e = None \<and> display (image w') = ''none'' \<and> src (image w') = ''old'' \<and>
       reader w' = new_FileReader)"
  using C4_listener_not_File [of True "JNull :: string jsval"
      "\<lparr>image = \<lparr>src = ''old'', display = []\<rparr>, reader = new_FileReader,
        watching = Some ''course.thumb'', handled = []\<rparr>"]
    C4_listener_not_File [of True "JStr ''a.png'' :: string jsval"
      "\<lparr>image = \<lparr>src = ''old'', display = []\<rparr>, reader = new_FileReader,
        watching = Some ''course.thumb'', handled = []\<rparr>"]
  by (simp add: split_beta)

lemma step_idle:
  "watching w = None \<Longrightarrow> readyState (reader w) \<noteq> LOADING \<Longrightarrow> step window_File enc ev w = w"
  by (cases ev) (simp_all split: option.splits)

lemma run_idle:
  "watching w = None \<Longrightarrow> readyState (reader w) \<noteq> LOADING \<Longrightarrow> run window_File enc evs w = w"
  by (induction evs) (simp_all add: step_idle)

text \<open>
  Claim C8. When the attributes object has no \<^verbatim>\<open>ngModel\<close>, \<open>link\<close> registers no
  watch, and after any sequence of later events (changes of host expressions, completions
  or failures of reads) the image has the source and the visibility it was linked with.
\<close>

theorem C8_no_binding:
  "map_of attrs ''ngModel'' = None \<Longrightarrow>
   watching (localImage_link attrs im :: 'f localImage) = None \<and>
   image (run window_File enc evs (localImage_link attrs im :: 'f localImage)) = im"
proof -
  assume a: "map_of attrs ''ngModel'' = None"
  let ?w = "localImage_link attrs im :: 'f localImage"
  have w: "watching ?w = None" and r: "readyState (reader ?w) \<noteq> LOADING"
    using a by (simp_all add: localImage_link_def new_FileReader_def)
  have "run window_File enc evs ?w = ?w"
    by (rule run_idle [OF w r])
  then show ?thesis
    using w by (simp add: localImage_link_def)
qed

theorem C8_no_binding_witness:
  "watching (localImage_link [(''alt'', ''preview'')] \<lparr>src = ''old'', display = ''block''\<rparr>
      :: string localImage) = None \<and>
   image (run True (\<lambda>f. ''data:'' @ f)
      [Changed ''course.thumb'' (JFile ''a.png''), ReadDone, Changed ''alt'' JNull, ReadFailed]
      (localImage_link [(''alt'', ''preview'')] \<lparr>src = ''old'', display = ''block''\<rparr>))
     = \<lparr>src = ''old'', display = ''block''\<rparr>"
proof -
  have h: "map_of [(''alt'', ''preview'')] ''ngModel'' = None"
    by simp
  show ?thesis
    by (rule C8_no_binding [OF h])
qed

section \<open>Properties of the class transfer\<close>

text \<open>The pattern on a class name that stands at the end of the string or before a
  space.\<close>

lemma space_white: "is_white_space CHR '' ''"
  by (simp add: is_white_space_def)

lemma class_name_no_space: "class_name t \<Longrightarrow> c \<in> set t \<Longrightarrow> c \<noteq> CHR '' ''"
  using space_white by (auto simp: class_name_def)

lemma word_n: "is_word_char CHR ''n''"
  by (simp add: is_word_char_def)

lemma ng_match_free:
  assumes "\<forall>x \<in> set (c # t). x \<noteq> CHR '' ''" and "u = [] \<or> hd u = CHR '' ''"
    and "\<not> (\<not> is_word prev \<and> is_ng_class (c # t))"
  shows "ng_match prev (c # t @ u) = None"
proof (cases t)
  case Nil
  with assms show ?thesis
    by (cases u) (auto simp: ng_match_def Let_def)
next
  case (Cons g r)
  show ?thesis
  proof (cases r)
    case Nil
    with Cons assms show ?thesis
      by (cases u) (auto simp: ng_match_def Let_def)
  next
    case (Cons x r')
    with \<open>t = g # r\<close> assms show ?thesis
      by (auto simp: ng_match_def Let_def is_ng_class_def word_boundary_def word_n)
  qed
qed


lemma replace_ng_free:
  "ng_free prev t \<Longrightarrow> \<forall>x \<in> set t. x \<noteq> CHR '' '' \<Longrightarrow> u = [] \<or> hd u = CHR '' '' \<Longrightarrow>
   replace_ng prev (t @ u) = t @ replace_ng (if t = [] then prev else Some (last t)) u"
proof (induction t arbitrary: prev)
  case Nil
  then show ?case by simp
next
  case (Cons c t)
  have "ng_match prev (c # t @ u) = None"
    using Cons.prems by (intro ng_match_free) auto
  then show ?case
    using Cons by auto
qed

lemma replace_ng_space: "replace_ng prev (CHR '' '' # u) = CHR '' '' # replace_ng (Some CHR '' '') u"
  by (simp add: ng_match_def split: list.splits)


lemma ng_class_shape:
  assumes "is_ng_class t"
  obtains x r where "t = CHR ''n'' # CHR ''g'' # x # r"
proof -
  from assms have "3 \<le> length t" and tk: "take 2 t = ''ng''"
    by (simp_all add: is_ng_class_def)
  then obtain a b x r where t: "t = a # b # x # r"
    by (auto simp: Suc_le_length_iff numeral_3_eq_3)
  with tk have "a = CHR ''n''" "b = CHR ''g''"
    by (simp_all add: numeral_2_eq_2)
  with t that show thesis by blast
qed

lemma ng_match_class_end:
  assumes "is_ng_class t" and "\<forall>x \<in> set t. x \<noteq> CHR '' ''" and "\<not> is_word prev"
  shows "ng_match prev t = Some t"
proof -
  from assms(1) obtain x r where t: "t = CHR ''n'' # CHR ''g'' # x # r"
    by (rule ng_class_shape)
  have ns: "\<forall>y \<in> set (x # r). y \<noteq> CHR '' ''"
    using assms(2) t by simp
  have tw: "takeWhile (\<lambda>c. c \<noteq> CHR '' '') (x # r) = x # r"
    using ns by (simp only: takeWhile_eq_all_conv) 
  have dw: "dropWhile (\<lambda>c. c \<noteq> CHR '' '') (x # r) = []"
    using ns by (simp only: dropWhile_eq_Nil_conv)
  have wb: "word_boundary prev (Some CHR ''n'')"
    using assms(3) by (simp add: word_boundary_def word_n)
  show ?thesis
    unfolding t ng_match_def list.case Let_def tw dw
    using wb by simp
qed

lemma ng_match_class_space:
  assumes "is_ng_class t" and "\<forall>x \<in> set t. x \<noteq> CHR '' ''" and "\<not> is_word prev"
    and u: "u = [] \<or> hd u \<noteq> CHR '' ''"
  shows "ng_match prev (t @ CHR '' '' # u) = Some (t @ '' '')"
proof -
  from assms(1) obtain x r where t: "t = CHR ''n'' # CHR ''g'' # x # r"
    by (rule ng_class_shape)
  have ns: "\<And>y. y \<in> set (x # r) \<Longrightarrow> y \<noteq> CHR '' ''"
    using assms(2) t by auto
  have tw2: "takeWhile (\<lambda>c. c \<noteq> CHR '' '') ((x # r) @ CHR '' '' # u) = x # r"
    using ns by (subst takeWhile_append2) simp_all
  have dw2: "dropWhile (\<lambda>c. c \<noteq> CHR '' '') ((x # r) @ CHR '' '' # u) = CHR '' '' # u"
    using ns by (subst dropWhile_append2) simp_all
  have sp: "takeWhile (\<lambda>c. c = CHR '' '') (CHR '' '' # u) = '' ''"
    using u by (cases u) simp_all
  have wb: "word_boundary prev (Some CHR ''n'')"
    using assms(3) by (simp add: word_boundary_def word_n)
  have "ng_match prev (CHR ''n'' # CHR ''g'' # ((x # r) @ CHR '' '' # u)) = Some (t @ '' '')"
    unfolding ng_match_def list.case Let_def tw2 dw2 sp
    using wb by (simp add: t)
  then show ?thesis
    by (simp add: t)
qed


lemma ng_free_prev: "\<not> is_word p \<Longrightarrow> \<not> is_word q \<Longrightarrow> ng_free p t = ng_free q t"
  by (cases t) simp_all

lemma join_classes_Cons:
  "join_classes (t # ts) = (if ts = [] then t else t @ CHR '' '' # join_classes ts)"
  by (cases ts) simp_all

lemma join_classes_hd:
  "ts \<noteq> [] \<Longrightarrow> \<forall>t \<in> set ts. class_name t \<Longrightarrow>
   join_classes ts \<noteq> [] \<and> hd (join_classes ts) = hd (hd ts)"
  by (cases ts) (auto simp: join_classes_Cons class_name_def)

lemma join_classes_last:
  "ts \<noteq> [] \<Longrightarrow> \<forall>t \<in> set ts. class_name t \<Longrightarrow>
   last (join_classes ts) = last (last ts)"
proof (induction ts rule: join_classes.induct)
  case (3 t t2 ts)
  then have "join_classes (t2 # ts) \<noteq> []"
    using join_classes_hd [of "t2 # ts"] by simp
  with 3 show ?case by simp
qed simp_all

lemma replace_ng_join:
  assumes "\<forall>t \<in> set ts. class_name t \<and> (is_ng_class t \<or> ng_free None t)"
    and "\<not> is_word prev"
  shows "replace_ng prev (join_classes ts) =
           join_classes (filter (\<lambda>t. \<not> is_ng_class t) ts) @
           (if filter (\<lambda>t. \<not> is_ng_class t) ts \<noteq> [] \<and> is_ng_class (last ts) then '' '' else [])"
  using assms
proof (induction ts arbitrary: prev rule: join_classes.induct)
  case 1
  then show ?case by simp
next
  case (2 t)
  show ?case
  proof (cases "is_ng_class t")
    case True
    with 2 have "ng_match prev t = Some t"
      by (intro ng_match_class_end) (auto dest: class_name_no_space)
    moreover from 2 have "t \<noteq> []" by (simp add: class_name_def)
    ultimately show ?thesis
      using True by (cases t) simp_all
  next
    case False
    with 2 have "ng_free prev t"
      using ng_free_prev [of None prev t] by simp
    with 2 replace_ng_free [of prev t "[]"] show ?thesis
      using False by (auto dest: class_name_no_space)
  qed
next
  case (3 t t2 ts)
  let ?u = "join_classes (t2 # ts)"
  have cn: "class_name t" and ns: "\<forall>x \<in> set t. x \<noteq> CHR '' ''"
    using 3 by (auto dest: class_name_no_space)
  have hd_u: "?u \<noteq> [] \<and> hd ?u \<noteq> CHR '' ''"
    using join_classes_hd [of "t2 # ts"] 3(2) class_name_no_space [of t2 "hd t2"]
    by (auto simp: class_name_def)
  have IH: "replace_ng (Some CHR '' '') ?u =
      join_classes (filter (\<lambda>t. \<not> is_ng_class t) (t2 # ts)) @
      (if filter (\<lambda>t. \<not> is_ng_class t) (t2 # ts) \<noteq> [] \<and> is_ng_class (last (t2 # ts))
       then '' '' else [])"
    using 3(2) by (intro 3(1)) (simp_all add: is_white_space_def[symmetric] is_word_char_def)
  show ?case
  proof (cases "is_ng_class t")
    case True
    have m: "ng_match prev (t @ CHR '' '' # ?u) = Some (t @ '' '')"
      using True ns 3(3) hd_u by (intro ng_match_class_space) auto
    have "replace_ng prev (t @ CHR '' '' # ?u) = replace_ng (Some CHR '' '') ?u"
      using cn m by (cases t) (simp_all add: class_name_def)
    then show ?thesis
      using True IH by simp
  next
    case False
    with 3(2) have "ng_free prev t"
      using ng_free_prev [of None prev t] 3(3) by simp
    then have "replace_ng prev (t @ CHR '' '' # ?u) = t @ replace_ng (Some (last t)) (CHR '' '' # ?u)"
      using replace_ng_free [of prev t "CHR '' '' # ?u"] ns cn by (simp add: class_name_def)
    then have "replace_ng prev (t @ CHR '' '' # ?u) = t @ CHR '' '' # replace_ng (Some CHR '' '') ?u"
      by (simp only: replace_ng_space)
    moreover have "filter (\<lambda>t. \<not> is_ng_class t) (t2 # ts) = [] \<Longrightarrow> is_ng_class (last (t2 # ts))"
      by (metis (mono_tags, lifting) filter_empty_conv last_in_set list.distinct(1))
    ultimately show ?thesis
      using False IH by (auto simp: join_classes_Cons)
  qed
qed


lemma trim_Nil: "trim [] = []"
  by (simp add: trim_def)

lemma trim_id:
  assumes "s \<noteq> []" and "\<not> is_white_space (hd s)" and "\<not> is_white_space (last s)"
  shows "trim s = s"
proof -
  have "dropWhile is_white_space s = s"
    using assms(1,2) by (cases s) simp_all
  moreover have "dropWhile is_white_space (rev s) = rev s"
    using assms(1,3) by (cases "rev s") (simp_all add: last_rev [symmetric] del: last_rev)
  ultimately show ?thesis
    by (simp add: trim_def)
qed

lemma trim_trailing_space:
  assumes "s \<noteq> []" and "\<not> is_white_space (hd s)"
  shows "trim (s @ '' '') = trim s"
proof -
  have "dropWhile is_white_space (s @ '' '') = s @ '' ''"
    using assms by (cases s) simp_all
  moreover have "dropWhile is_white_space s = s"
    using assms by (cases s) simp_all
  ultimately show ?thesis
    by (simp add: trim_def space_white)
qed

lemma trim_join:
  assumes "\<forall>t \<in> set ks. class_name t"
  shows "trim (join_classes ks) = join_classes ks"
    and "ks \<noteq> [] \<Longrightarrow> trim (join_classes ks @ '' '') = join_classes ks"
proof -
  have *: "join_classes ks \<noteq> [] \<and> \<not> is_white_space (hd (join_classes ks)) \<and>
        \<not> is_white_space (last (join_classes ks))" if "ks \<noteq> []"
  proof -
    from that assms have "class_name (hd ks)" "class_name (last ks)"
      by simp_all
    then have "\<not> is_white_space (hd (hd ks))" "\<not> is_white_space (last (last ks))"
      by (simp_all add: class_name_def)
    with that assms show ?thesis
      by (simp add: join_classes_hd join_classes_last)
  qed
  show "trim (join_classes ks) = join_classes ks"
    using * by (cases "ks = []") (simp_all add: trim_Nil trim_id)
  show "ks \<noteq> [] \<Longrightarrow> trim (join_classes ks @ '' '') = join_classes ks"
    using * by (simp add: trim_trailing_space trim_id)
qed

lemma trim_replace_ng_join:
  assumes "\<forall>t \<in> set ts. class_name t \<and> (is_ng_class t \<or> ng_free None t)"
  shows "trim (replace_ng None (join_classes ts)) = join_classes (filter (\<lambda>t. \<not> is_ng_class t) ts)"
proof -
  let ?ks = "filter (\<lambda>t. \<not> is_ng_class t) ts"
  have ks: "\<forall>t \<in> set ?ks. class_name t"
    using assms by simp
  show ?thesis
    using trim_join [OF ks] by (simp add: replace_ng_join [OF assms])
qed

text \<open>
  Claim C6, amended. When \<open>link\<close> succeeds, the class attribute of the custom element is
  the empty string afterwards. The classes are moved to the input except those the
  pattern \<^verbatim>\<open>/\bng[^ ]+ */g\<close> deletes: for a class attribute of class names separated
  by single spaces, each of which either begins with \<^verbatim>\<open>ng\<close> and has a further code
  unit or contains no match of the pattern, the \<^verbatim>\<open>className\<close> of the input is the list
  of the class names of the second kind, in their order, separated by single spaces.
\<close>

theorem C6_class_transfer:
  assumes "file_link attrs el = Inr el'"
  shows "attributes el' ''class'' = Some [] \<and>
         (\<forall>ts. attributes el ''class'' = Some (join_classes ts) \<and>
               (\<forall>t \<in> set ts. class_name t \<and> (is_ng_class t \<or> ng_free None t)) \<longrightarrow>
               last (children el') ''className'' =
                 Some (PStr (join_classes (filter (\<lambda>t. \<not> is_ng_class t) ts))))"
proof (cases "attributes el ''class''")
  case None
  with assms show ?thesis by (simp add: file_link_None)
next
  case (Some c)
  from assms file_link_Some [OF Some, of attrs]
  have "attributes el' ''class'' = Some []"
    and "last (children el') ''className'' = Some (PStr (trim (replace_ng None c)))"
    by auto
  with Some show ?thesis
    by (auto simp: trim_replace_ng_join)
qed

theorem C6_class_transfer_witness:
  "attributes (projr (file_link [(''class'', ''btn ng-scope form-control ng-pristine'')]
      \<lparr>attributes = [''class'' \<mapsto> ''btn ng-scope form-control ng-pristine''],
        children = []\<rparr>)) ''class'' = Some [] \<and>
   last (children (projr (file_link [(''class'', ''btn ng-scope form-control ng-pristine'')]
      \<lparr>attributes = [''class'' \<mapsto> ''btn ng-scope form-control ng-pristine''],
        children = []\<rparr>))) ''className'' = Some (PStr ''btn form-control'')"
proof -
  let ?attrs = "[(''class'', ''btn ng-scope form-control ng-pristine'')]"
  let ?el = "\<lparr>attributes = [''class'' \<mapsto> ''btn ng-scope form-control ng-pristine''],
        children = []\<rparr>"
  let ?ts = "[''btn'', ''ng-scope'', ''form-control'', ''ng-pristine'']"
  have ok: "file_link ?attrs ?el = Inr (projr (file_link ?attrs ?el))"
    by (simp add: file_link_Some)
  have cls: "attributes ?el ''class'' = Some (join_classes ?ts)"
    by simp
  have names: "\<forall>t \<in> set ?ts. class_name t \<and> (is_ng_class t \<or> ng_free None t)"
    by (simp add: class_name_def is_white_space_def is_ng_class_def is_word_char_def)
  have keep: "join_classes (filter (\<lambda>t. \<not> is_ng_class t) ?ts) = ''btn form-control''"
    by (simp add: is_ng_class_def)
  from C6_class_transfer [OF ok]
  have "attributes (projr (file_link ?attrs ?el)) ''class'' = Some []"
    and "last (children (projr (file_link ?attrs ?el))) ''className'' =
           Some (PStr (join_classes (filter (\<lambda>t. \<not> is_ng_class t) ?ts)))"
    using cls names by blast+
  then show ?thesis
    by (simp only: keep)
qed

text \<open>
  The claim as stated fails on a custom element that carries a class of the framework:
  of \<^verbatim>\<open>class="btn ng-scope"\<close> only \<^verbatim>\<open>btn\<close> reaches the input.
\<close>

theorem C6_framework_class_counterexample:
  "(case file_link [(''class'', ''btn ng-scope'')]
      \<lparr>attributes = [''class'' \<mapsto> ''btn ng-scope''], children = []\<rparr> of
      Inl e \<Rightarrow> False
    | Inr el' \<Rightarrow> last (children el') ''className'' = Some (PStr ''btn'')) \<and>
   ''btn'' \<noteq> ''btn ng-scope''"
  by (simp add: file_link_Some ng_match_def word_boundary_def is_word_char_def
      trim_def is_white_space_def)

end
